theory Spec2Isabelle
  imports Main "HOL-Library.Sublist"
begin

section \<open>The catalog and the values the scripts work on\<close>

text \<open>
  The repository holds two versions of the same book-browsing script: \<^verbatim>\<open>scripts.js\<close> and a
  second, further refactored file (called \<^verbatim>\<open>part_000\<close> below). Both import \<^verbatim>\<open>books\<close>,
  \<^verbatim>\<open>authors\<close>, \<^verbatim>\<open>genres\<close> and \<^verbatim>\<open>BOOKS_PER_PAGE\<close> from \<^verbatim>\<open>data.js\<close>, which is taken as a
  parameter everywhere. Definitions ending in \<open>_scripts\<close> embed code that only
  \<^verbatim>\<open>scripts.js\<close> has, definitions ending in \<open>_part000\<close> code that only the second file has;
  the first 85 lines of the two files are identical and are embedded once.

  JavaScript strings are modelled as \<open>string\<close>; a character stands for one code unit below
  256. An object with string-valued properties read by key is a map \<open>string \<rightharpoonup> string\<close>
  (\<open>None\<close> is \<^verbatim>\<open>undefined\<close>); an object whose entries are enumerated is an association list
  in enumeration order. The \<^verbatim>\<open>authors\<close> object is both enumerated and read by key, and a read
  by key also finds what the object inherits, so it is a \<open>js_object\<close>.
\<close>

record book =
  id' :: string
  title :: string
  author :: string
  image' :: string
  description :: string
  published :: string
  genres :: "string list"

type_synonym obj = "string \<rightharpoonup> string"

type_synonym lookup = "(string \<times> string) list"

text \<open>
  An object literal of display names: its own entries in enumeration order, and for every
  property name it inherits from its prototype (for an object literal
  \<^verbatim>\<open>Object.prototype\<close>: \<^verbatim>\<open>toString\<close>, \<^verbatim>\<open>constructor\<close>, ...) the text a template literal prints
  for the inherited value. That text is the browser's, so it is part of the data.
\<close>

record js_object =
  own_entries :: lookup
  inherited :: obj

datatype js_error = TypeError

subsection \<open>String methods\<close>

definition isWhiteSpace :: "char \<Rightarrow> bool" where
  "isWhiteSpace c \<longleftrightarrow>
     c = CHR 0x09 \<or> c = CHR 0x0A \<or> c = CHR 0x0B \<or> c = CHR 0x0C \<or> c = CHR 0x0D \<or>
     c = CHR 0x20 \<or> c = CHR 0xA0"

text \<open>\<^verbatim>\<open>String.prototype.trim\<close>: white space and line terminators go from both ends.\<close>

definition trim :: "string \<Rightarrow> string" where
  "trim s = rev (dropWhile isWhiteSpace (rev (dropWhile isWhiteSpace s)))"

text \<open>The lower case of a code unit below 256: the letters A to Z, and the accented capitals
  from 192 to 222 except the multiplication sign 215, move up by 32.\<close>

definition toLowerChar :: "char \<Rightarrow> char" where
  "toLowerChar c =
     (let n = (of_char c :: nat)
      in if (65 \<le> n \<and> n \<le> 90) \<or> (192 \<le> n \<and> n \<le> 222 \<and> n \<noteq> 215) then char_of (n + 32) else c)"

text \<open>\<^verbatim>\<open>String.prototype.toLowerCase\<close>.\<close>

definition toLowerCase :: "string \<Rightarrow> string" where
  "toLowerCase s = map toLowerChar s"

text \<open>\<^verbatim>\<open>String.prototype.includes\<close>: the search string occurs at some position.\<close>

fun includes_str :: "string \<Rightarrow> string \<Rightarrow> bool" where
  "includes_str [] searchString = (searchString = [])"
| "includes_str (c # cs) searchString =
     (prefix searchString (c # cs) \<or> includes_str cs searchString)"

text \<open>\<^verbatim>\<open>Array.prototype.includes\<close> on an array of strings, searched for a value that may be
  \<^verbatim>\<open>undefined\<close>.\<close>

fun includes_arr :: "string list \<Rightarrow> string option \<Rightarrow> bool" where
  "includes_arr [] v = False"
| "includes_arr (x # xs) v = (Some x = v \<or> includes_arr xs v)"

text \<open>\<^verbatim>\<open>Array.prototype.slice(start, end)\<close> with non-negative integer bounds: the bounds are
  clamped to the length, and an end at or before the start gives the empty array.\<close>

definition slice :: "'a list \<Rightarrow> nat \<Rightarrow> nat \<Rightarrow> 'a list" where
  "slice xs start end' = take (end' - start) (drop start xs)"

section \<open>The filter\<close>

subsection \<open>\<^verbatim>\<open>scripts.js\<close>: the filter inside the search-form submit handler (lines 92 to 107)\<close>

text \<open>The inner loop over \<^verbatim>\<open>book.genres\<close>; it breaks as soon as \<^verbatim>\<open>genreMatch\<close> is set.\<close>

fun genreLoop :: "string option \<Rightarrow> bool \<Rightarrow> string list \<Rightarrow> bool" where
  "genreLoop g genreMatch [] = genreMatch"
| "genreLoop g genreMatch (singleGenre # rest) =
     (if genreMatch then genreMatch
      else genreLoop g (if Some singleGenre = g then True else genreMatch) rest)"

text \<open>
  One pass of the outer loop up to the decision (lines 93 to 104): the genre loop, then the
  condition, which calls \<^verbatim>\<open>filters.title.trim()\<close> first and so throws a TypeError when
  the form data has no \<^verbatim>\<open>title\<close>.
\<close>

definition loopCondition :: "obj \<Rightarrow> book \<Rightarrow> js_error + bool" where
  "loopCondition filters b =
     (let genreMatch = genreLoop (filters ''genre'') (filters ''genre'' = Some ''any'') (genres b)
      in case filters ''title'' of
           None \<Rightarrow> Inl TypeError
         | Some t \<Rightarrow>
             Inr ((trim t = [] \<or> includes_str (toLowerCase (title b)) (toLowerCase t)) \<and>
                  (filters ''author'' = Some ''any'' \<or> Some (author b) = filters ''author'') \<and>
                  genreMatch))"

text \<open>The outer loop over \<^verbatim>\<open>books\<close>, pushing to \<^verbatim>\<open>result\<close>.\<close>

fun filterLoop :: "obj \<Rightarrow> book list \<Rightarrow> book list \<Rightarrow> js_error + book list" where
  "filterLoop filters [] result = Inr result"
| "filterLoop filters (b # rest) result =
     (case loopCondition filters b of
        Inl e \<Rightarrow> Inl e
      | Inr c \<Rightarrow> if c then filterLoop filters rest (result @ [b])
                 else filterLoop filters rest result)"

subsection \<open>The second file: \<^verbatim>\<open>filterBooks\<close> (lines 100 to 107)\<close>

text \<open>The callback given to \<^verbatim>\<open>books.filter\<close>; it evaluates all three constants.\<close>

definition filterBooks_callback :: "obj \<Rightarrow> book \<Rightarrow> js_error + bool" where
  "filterBooks_callback filters b =
     (let matchesGenre = (filters ''genre'' = Some ''any'' \<or> includes_arr (genres b) (filters ''genre''));
          matchesAuthor = (filters ''author'' = Some ''any'' \<or> Some (author b) = filters ''author'')
      in case filters ''title'' of
           None \<Rightarrow> Inl TypeError
         | Some t \<Rightarrow>
             (let matchesTitle =
                    (trim t = [] \<or> includes_str (toLowerCase (title b)) (toLowerCase t))
              in Inr (matchesGenre \<and> matchesAuthor \<and> matchesTitle)))"

text \<open>\<^verbatim>\<open>Array.prototype.filter\<close> with a callback that may throw.\<close>

fun filter_arr :: "('a \<Rightarrow> js_error + bool) \<Rightarrow> 'a list \<Rightarrow> js_error + 'a list" where
  "filter_arr f [] = Inr []"
| "filter_arr f (x # xs) =
     (case f x of
        Inl e \<Rightarrow> Inl e
      | Inr keep \<Rightarrow>
          (case filter_arr f xs of
             Inl e \<Rightarrow> Inl e
           | Inr ys \<Rightarrow> Inr (if keep then x # ys else ys)))"

definition filterBooks :: "book list \<Rightarrow> obj \<Rightarrow> js_error + book list" where
  "filterBooks books filters = filter_arr (filterBooks_callback filters) books"

subsection \<open>The predicate in the specification's words\<close>

text \<open>
  A record satisfies the criteria \<open>(g, a, t)\<close> when the genre is \<open>any\<close> or one of the record's
  genres, the author is \<open>any\<close> or the record's author, and the title is blank after trimming
  or the lowercased record title contains the lowercased criteria title.
\<close>

definition satisfies :: "string \<Rightarrow> string \<Rightarrow> string \<Rightarrow> book \<Rightarrow> bool" where
  "satisfies g a t b \<longleftrightarrow>
     (g = ''any'' \<or> g \<in> set (genres b)) \<and>
     (a = ''any'' \<or> a = author b) \<and>
     (trim t = [] \<or> sublist (toLowerCase t) (toLowerCase (title b)))"

text \<open>The form data of a filter submission: the three fields of the search form.\<close>

definition criteria :: "string \<Rightarrow> string \<Rightarrow> string \<Rightarrow> obj" where
  "criteria g a t = [''genre'' \<mapsto> g, ''author'' \<mapsto> a, ''title'' \<mapsto> t]"

section \<open>The page\<close>

subsection \<open>Elements\<close>

text \<open>A preview button: its tag, its class attribute, its \<^verbatim>\<open>data-preview\<close> attribute and the
  markup assigned to \<^verbatim>\<open>innerHTML\<close>, character for character.\<close>

record element =
  tagName :: string
  className :: string
  data_preview :: string
  innerHTML :: string

record option_element =
  option_value :: string
  option_innerText :: string

text \<open>\<^verbatim>\<open>${authors[author]}\<close> in a template literal: the own property if there is one, else the
  inherited one, else \<^verbatim>\<open>undefined\<close>.\<close>

definition author_name :: "js_object \<Rightarrow> string \<Rightarrow> string" where
  "author_name authors a =
     (case map_of (own_entries authors) a of
        Some n \<Rightarrow> n
      | None \<Rightarrow> (case inherited authors a of Some v \<Rightarrow> v | None \<Rightarrow> ''undefined''))"

text \<open>\<^verbatim>\<open>createBookPreviewElement\<close> (lines 12 to 26 of both files).\<close>

definition createBookPreviewElement :: "js_object \<Rightarrow> book \<Rightarrow> element" where
  "createBookPreviewElement authors b =
     \<lparr>tagName = ''button'', className = ''preview'', data_preview = id' b,
      innerHTML =
        ''\<newline>        <img class=\"preview__image\" src=\"'' @ image' b @ ''\" />\<newline>        <div class=\"preview__info\">\<newline>            <h3 class=\"preview__title\">'' @ title b @ ''</h3>\<newline>            <div class=\"preview__author\">'' @ author_name authors (author b) @ ''</div>\<newline>        </div>\<newline>    ''\<rparr>"

text \<open>The preview built inline in \<^verbatim>\<open>scripts.js\<close>, by the submit handler (lines 122 to 136) and,
  with the same text, by the show-more handler (lines 157 to 171).\<close>

definition inlinePreview_scripts :: "js_object \<Rightarrow> book \<Rightarrow> element" where
  "inlinePreview_scripts authors b =
     \<lparr>tagName = ''button'', className = ''preview'', data_preview = id' b,
      innerHTML =
        ''\<newline>            <img\<newline>                class=\"preview__image\"\<newline>                src=\"'' @ image' b @ ''\"\<newline>            />\<newline>            \<newline>            <div class=\"preview__info\">\<newline>                <h3 class=\"preview__title\">'' @ title b @ ''</h3>\<newline>                <div class=\"preview__author\">'' @ author_name authors (author b) @ ''</div>\<newline>            </div>\<newline>        ''\<rparr>"

subsection \<open>The document and the module's variables\<close>

text \<open>The detail overlay \<^verbatim>\<open>[data-list-active]\<close> and the elements inside it.\<close>

record detail_overlay =
  active_open :: bool
  blur_src :: string
  image_src :: string
  title_innerText :: string
  subtitle_innerText :: string
  description_innerText :: string

text \<open>
  The parts of the document the scripts read or write: the children of
  \<^verbatim>\<open>[data-list-items]\<close>, whether \<^verbatim>\<open>[data-list-message]\<close> has the class
  \<^verbatim>\<open>list__message_show\<close>, the show-more button, the overlays, the two dropdowns, the theme
  selector, the two colour properties of the root element, the \<^verbatim>\<open>open\<close> property the second
  file writes on the search form, the focus of the search title, and the scroll position.
\<close>

record document =
  list_items :: "element list"
  list_message_show :: bool
  list_button_disabled :: bool
  list_button_innerHTML :: string
  list_active :: detail_overlay
  search_overlay_open :: bool
  settings_overlay_open :: bool
  search_form_open :: bool
  search_title_focused :: bool
  search_genres :: "option_element list"
  search_authors :: "option_element list"
  settings_theme_value :: string
  color_dark :: string
  color_light :: string
  scroll_top :: nat

record state =
  page :: nat
  matches :: "book list"
  doc :: document

subsection \<open>Lines 1 to 84, the same in both files\<close>

definition renderInitialBooks :: "js_object \<Rightarrow> nat \<Rightarrow> book list \<Rightarrow> document \<Rightarrow> document" where
  "renderInitialBooks authors BOOKS_PER_PAGE booksToRender d =
     (let fragment = map (createBookPreviewElement authors) (slice booksToRender 0 BOOKS_PER_PAGE)
      in d\<lparr>list_items := list_items d @ fragment\<rparr>)"

text \<open>\<^verbatim>\<open>populateDropdown\<close>, as a function from the dropdown's children to its children.\<close>

definition populateDropdown ::
  "option_element list \<Rightarrow> lookup \<Rightarrow> string \<Rightarrow> option_element list" where
  "populateDropdown dropdown options' defaultLabel =
     (let defaultOption = \<lparr>option_value = ''any'', option_innerText = defaultLabel\<rparr>;
          fragment = defaultOption #
            map (\<lambda>(i, name). \<lparr>option_value = i, option_innerText = name\<rparr>) options'
      in dropdown @ fragment)"

definition applyTheme :: "string option \<Rightarrow> document \<Rightarrow> document" where
  "applyTheme theme d =
     (let isNight = (theme = Some ''night'')
      in d\<lparr>color_dark := (if isNight then ''255, 255, 255'' else ''10, 10, 20''),
           color_light := (if isNight then ''10, 10, 20'' else ''255, 255, 255'')\<rparr>)"

definition initTheme :: "bool \<Rightarrow> document \<Rightarrow> document" where
  "initTheme prefersDark d =
     (let theme = (if prefersDark then ''night'' else ''day'')
      in applyTheme (Some theme) (d\<lparr>settings_theme_value := theme\<rparr>))"

text \<open>
  Lines 64 and 65 have no comma between \<^verbatim>\<open>genres\<close> (\<^verbatim>\<open>authors\<close>) and the template literal, so
  the second argument is a tagged template: the imported object is called as the tag
  function. The imports are plain objects, and calling a value that is not a function
  throws a TypeError.
\<close>

definition tagged_template :: "'a \<Rightarrow> string \<Rightarrow> js_error + lookup" where
  "tagged_template tag quasi = Inl TypeError"

text \<open>
  The module's top level up to line 84: the error, if one is thrown, and the state at
  that moment. Statements after a throw do not run, which includes the registration of
  every listener.
\<close>

definition startup ::
  "book list \<Rightarrow> js_object \<Rightarrow> lookup \<Rightarrow> nat \<Rightarrow> bool \<Rightarrow> document \<Rightarrow> js_error option \<times> state" where
  "startup books authors genres_obj BOOKS_PER_PAGE prefersDark d0 =
     (let s1 = \<lparr>page = 1, matches = books,
                doc = renderInitialBooks authors BOOKS_PER_PAGE books d0\<rparr>
      in case tagged_template genres_obj ''All genres'' of
           Inl e \<Rightarrow> (Some e, s1)
         | Inr o1 \<Rightarrow>
             (let s2 = s1\<lparr>doc := (doc s1)\<lparr>search_genres :=
                         populateDropdown (search_genres (doc s1)) o1 ''undefined''\<rparr>\<rparr>
              in case tagged_template authors ''All Authors'' of
                   Inl e \<Rightarrow> (Some e, s2)
                 | Inr o2 \<Rightarrow>
                     (let s3 = s2\<lparr>doc := (doc s2)\<lparr>search_authors :=
                                 populateDropdown (search_authors (doc s2)) o2 ''undefined''\<rparr>\<rparr>
                      in (None, s3\<lparr>doc := initTheme prefersDark (doc s3)\<rparr>))))"

text \<open>The state the handlers start from: the module's variables and the first paint
  (lines 3, 4 and 40).\<close>

definition init_state :: "book list \<Rightarrow> js_object \<Rightarrow> nat \<Rightarrow> document \<Rightarrow> state" where
  "init_state books authors BOOKS_PER_PAGE d0 =
     \<lparr>page = 1, matches = books, doc = renderInitialBooks authors BOOKS_PER_PAGE books d0\<rparr>"


subsection \<open>The show-more button\<close>

text \<open>A non-negative number in a template literal prints in decimal.\<close>

definition digit_char :: "nat \<Rightarrow> char" where
  "digit_char n = ''0123456789'' ! n"

fun show_nat :: "nat \<Rightarrow> string" where
  "show_nat n = (if n < 10 then [digit_char n] else show_nat (n div 10) @ [digit_char (n mod 10)])"

declare show_nat.simps [simp del]

text \<open>The markup both files assign to the button; \<open>shown\<close> is the number in the brackets.\<close>

definition show_more_html :: "nat \<Rightarrow> string" where
  "show_more_html shown =
     ''\<newline>        <span>Show more</span>\<newline>        <span class=\"list__remaining\"> ('' @ show_nat shown @ '')</span>\<newline>    ''"

text \<open>The second file's \<^verbatim>\<open>updateShowMoreButton\<close> (lines 126 to 134); it reads the variable
  \<^verbatim>\<open>page\<close>.\<close>

definition updateShowMoreButton :: "nat \<Rightarrow> nat \<Rightarrow> nat \<Rightarrow> document \<Rightarrow> document" where
  "updateShowMoreButton BOOKS_PER_PAGE page' totalBooks d =
     (let remainingBooks = int totalBooks - int (page' * BOOKS_PER_PAGE)
      in d\<lparr>list_button_disabled := (remainingBooks \<le> 0),
           list_button_innerHTML :=
             show_more_html (nat (if remainingBooks > 0 then remainingBooks else 0))\<rparr>)"

subsection \<open>\<^verbatim>\<open>scripts.js\<close>: the handlers\<close>

text \<open>
  The submit handler of \<^verbatim>\<open>[data-search-form]\<close> (lines 86 to 151). A TypeError can only come
  from the filter loop, before anything is assigned.
\<close>

definition searchSubmit_scripts ::
  "book list \<Rightarrow> js_object \<Rightarrow> nat \<Rightarrow> obj \<Rightarrow> state \<Rightarrow> js_error + state" where
  "searchSubmit_scripts books authors BOOKS_PER_PAGE filters s =
     (case filterLoop filters books [] of
        Inl e \<Rightarrow> Inl e
      | Inr result \<Rightarrow>
          (let page1 = 1;
               matches1 = result;
               d1 = (if length result < 1 then (doc s)\<lparr>list_message_show := True\<rparr>
                     else (doc s)\<lparr>list_message_show := False\<rparr>);
               d2 = d1\<lparr>list_items := []\<rparr>;
               newItems = map (inlinePreview_scripts authors) (slice result 0 BOOKS_PER_PAGE);
               d3 = d2\<lparr>list_items := list_items d2 @ newItems\<rparr>;
               remaining = int (length matches1) - int (page1 * BOOKS_PER_PAGE);
               d4 = d3\<lparr>list_button_disabled := (remaining < 1)\<rparr>;
               d5 = d4\<lparr>list_button_innerHTML :=
                       show_more_html (nat (if remaining > 0 then remaining else 0))\<rparr>;
               d6 = d5\<lparr>scroll_top := 0\<rparr>;
               d7 = d6\<lparr>search_overlay_open := False\<rparr>
           in Inr \<lparr>page = page1, matches = matches1, doc = d7\<rparr>))"

text \<open>The click handler of \<^verbatim>\<open>[data-list-button]\<close> (lines 153 to 178).\<close>

definition listButtonClick_scripts :: "js_object \<Rightarrow> nat \<Rightarrow> state \<Rightarrow> state" where
  "listButtonClick_scripts authors BOOKS_PER_PAGE s =
     (let fragment = map (inlinePreview_scripts authors)
            (slice (matches s) (page s * BOOKS_PER_PAGE) ((page s + 1) * BOOKS_PER_PAGE));
          d1 = (doc s)\<lparr>list_items := list_items (doc s) @ fragment\<rparr>
      in s\<lparr>doc := d1, page := page s + 1\<rparr>)"

text \<open>
  A node on the path of a click event, from the target outwards: its classes and its
  \<^verbatim>\<open>dataset.preview\<close> (\<open>None\<close> when the node has no such attribute or no dataset at all, as
  the document and the window).
\<close>

record node =
  node_classes :: "string list"
  node_preview :: "string option"

text \<open>The inner loop of the click handler of \<^verbatim>\<open>[data-list-items]\<close> (lines 190 to 193).\<close>

fun bookLoop :: "book list \<Rightarrow> book option \<Rightarrow> string \<Rightarrow> book option" where
  "bookLoop [] result preview = result"
| "bookLoop (singleBook # rest) result preview =
     (if result \<noteq> None then result
      else bookLoop rest (if id' singleBook = preview then Some singleBook else result) preview)"

text \<open>The loop over the path (lines 184 to 197); an empty \<^verbatim>\<open>dataset.preview\<close> is falsy.\<close>

fun pathLoop :: "book list \<Rightarrow> book option \<Rightarrow> node list \<Rightarrow> book option" where
  "pathLoop books active [] = active"
| "pathLoop books active (n # rest) =
     (if active \<noteq> None then active
      else (case node_preview n of
              None \<Rightarrow> pathLoop books active rest
            | Some preview \<Rightarrow>
                if preview = [] then pathLoop books active rest
                else pathLoop books (bookLoop books None preview) rest))"

text \<open>
  The subtitle needs \<^verbatim>\<open>new Date(published).getFullYear()\<close>, which depends on the date
  parser and the time zone of the browser; the handlers take the function from a date
  string to the printed year as the parameter \<open>fullYear\<close>, and \<open>getFullYear\<close> below is that
  function for a given browser.
\<close>

definition listItemsClick_scripts ::
  "book list \<Rightarrow> js_object \<Rightarrow> (string \<Rightarrow> string) \<Rightarrow> node list \<Rightarrow> state \<Rightarrow> state" where
  "listItemsClick_scripts books authors fullYear pathArray s =
     (case pathLoop books None pathArray of
        None \<Rightarrow> s
      | Some active \<Rightarrow>
          s\<lparr>doc := (doc s)\<lparr>list_active :=
               \<lparr>active_open = True,
                blur_src = image' active,
                image_src = image' active,
                title_innerText = title active,
                subtitle_innerText =
                  author_name authors (author active) @ '' ('' @ fullYear (published active) @ '')'',
                description_innerText = description active\<rparr>\<rparr>\<rparr>)"

subsection \<open>The second file: the handlers\<close>

text \<open>The submit handler of \<^verbatim>\<open>[data-search-form]\<close> (lines 86 to 93): it reads \<^verbatim>\<open>theme\<close> from
  the form data, applies it, and writes \<^verbatim>\<open>open\<close> on the form itself.\<close>

definition searchSubmit_part000 :: "obj \<Rightarrow> state \<Rightarrow> state" where
  "searchSubmit_part000 formData s =
     (let theme = formData ''theme'';
          d1 = applyTheme theme (doc s)
      in s\<lparr>doc := d1\<lparr>search_form_open := False\<rparr>\<rparr>)"

text \<open>\<^verbatim>\<open>updateBookList\<close> (lines 113 to 120). No statement of the file calls it.\<close>

definition updateBookList :: "js_object \<Rightarrow> nat \<Rightarrow> book list \<Rightarrow> state \<Rightarrow> state" where
  "updateBookList authors BOOKS_PER_PAGE filteredBooks s =
     (let d1 = (doc s)\<lparr>list_items := []\<rparr>;
          fragment = map (createBookPreviewElement authors) (slice filteredBooks 0 BOOKS_PER_PAGE);
          d2 = d1\<lparr>list_items := list_items d1 @ fragment\<rparr>
      in s\<lparr>doc := updateShowMoreButton BOOKS_PER_PAGE (page s) (length filteredBooks) d2\<rparr>)"

text \<open>The click handler of \<^verbatim>\<open>[data-list-button]\<close> (lines 137 to 145).\<close>

definition listButtonClick_part000 :: "js_object \<Rightarrow> nat \<Rightarrow> state \<Rightarrow> state" where
  "listButtonClick_part000 authors BOOKS_PER_PAGE s =
     (let fragment = map (createBookPreviewElement authors)
            (slice (matches s) (page s * BOOKS_PER_PAGE) ((page s + 1) * BOOKS_PER_PAGE));
          d1 = (doc s)\<lparr>list_items := list_items (doc s) @ fragment\<rparr>;
          page1 = page s + 1
      in \<lparr>page = page1, matches = matches s,
          doc = updateShowMoreButton BOOKS_PER_PAGE page1 (length (matches s)) d1\<rparr>)"

text \<open>\<^verbatim>\<open>displayBookDetails\<close> (lines 171 to 178).\<close>

definition displayBookDetails ::
  "js_object \<Rightarrow> (string \<Rightarrow> string) \<Rightarrow> book \<Rightarrow> document \<Rightarrow> document" where
  "displayBookDetails authors fullYear b d =
     d\<lparr>list_active :=
         \<lparr>active_open = True,
          blur_src = image' b,
          image_src = image' b,
          title_innerText = title b,
          subtitle_innerText =
            author_name authors (author b) @ '' ('' @ fullYear (published b) @ '')'',
          description_innerText = description b\<rparr>\<rparr>"

text \<open>\<^verbatim>\<open>event.target.closest('.preview')\<close>: the first node with the class, from the target
  outwards.\<close>

definition closest_preview :: "node list \<Rightarrow> node option" where
  "closest_preview path = find (\<lambda>n. ''preview'' \<in> set (node_classes n)) path"

text \<open>The click handler of \<^verbatim>\<open>[data-list-items]\<close> (lines 180 to 186).\<close>

definition listItemsClick_part000 ::
  "book list \<Rightarrow> js_object \<Rightarrow> (string \<Rightarrow> string) \<Rightarrow> node list \<Rightarrow> state \<Rightarrow> state" where
  "listItemsClick_part000 books authors fullYear path s =
     (let bookId = (case closest_preview path of None \<Rightarrow> None | Some n \<Rightarrow> node_preview n)
      in case bookId of
           None \<Rightarrow> s
         | Some i \<Rightarrow>
             if i = [] then s
             else (case find (\<lambda>b. id' b = i) books of
                     None \<Rightarrow> s
                   | Some selectedBook \<Rightarrow>
                       s\<lparr>doc := displayBookDetails authors fullYear selectedBook (doc s)\<rparr>))"

subsection \<open>Events\<close>

text \<open>
  What the user can do, and the listener each file has for it. Neither file has a
  listener on the settings form; \<^verbatim>\<open>scripts.js\<close> has none on the header and cancel buttons.
  An event without a listener leaves the state as it is (what the browser itself does
  with a submitted form is not part of the scripts). A handler that throws leaves the
  state as it was at the throw.

  The listeners are added by top-level statements below line 65, which \<open>startup\<close> shows is
  never passed. The handlers are embedded as they are written, and \<open>dispatch\<close> describes
  the page with every \<^verbatim>\<open>addEventListener\<close> of the file carried out.
\<close>

datatype event =
    SearchFormSubmit obj
  | SettingsFormSubmit obj
  | ListButtonClick
  | ListItemsClick "node list"
  | HeaderSearchClick
  | HeaderSettingsClick
  | SearchCancelClick
  | SettingsCancelClick

fun dispatch_scripts ::
  "book list \<Rightarrow> js_object \<Rightarrow> nat \<Rightarrow> (string \<Rightarrow> string) \<Rightarrow> event \<Rightarrow> state \<Rightarrow> state" where
  "dispatch_scripts books authors n fullYear (SearchFormSubmit formData) s =
     (case searchSubmit_scripts books authors n formData s of Inl e \<Rightarrow> s | Inr s' \<Rightarrow> s')"
| "dispatch_scripts books authors n fullYear ListButtonClick s =
     listButtonClick_scripts authors n s"
| "dispatch_scripts books authors n fullYear (ListItemsClick path) s =
     listItemsClick_scripts books authors fullYear path s"
| "dispatch_scripts books authors n fullYear ev s = s"

fun dispatch_part000 ::
  "book list \<Rightarrow> js_object \<Rightarrow> nat \<Rightarrow> (string \<Rightarrow> string) \<Rightarrow> event \<Rightarrow> state \<Rightarrow> state" where
  "dispatch_part000 books authors n fullYear (SearchFormSubmit formData) s =
     searchSubmit_part000 formData s"
| "dispatch_part000 books authors n fullYear ListButtonClick s =
     listButtonClick_part000 authors n s"
| "dispatch_part000 books authors n fullYear (ListItemsClick path) s =
     listItemsClick_part000 books authors fullYear path s"
| "dispatch_part000 books authors n fullYear HeaderSearchClick s =
     s\<lparr>doc := (doc s)\<lparr>search_overlay_open := True, search_title_focused := True\<rparr>\<rparr>"
| "dispatch_part000 books authors n fullYear HeaderSettingsClick s =
     s\<lparr>doc := (doc s)\<lparr>settings_overlay_open := True\<rparr>\<rparr>"
| "dispatch_part000 books authors n fullYear SearchCancelClick s =
     s\<lparr>doc := (doc s)\<lparr>search_overlay_open := False\<rparr>\<rparr>"
| "dispatch_part000 books authors n fullYear SettingsCancelClick s =
     s\<lparr>doc := (doc s)\<lparr>settings_overlay_open := False\<rparr>\<rparr>"
| "dispatch_part000 books authors n fullYear (SettingsFormSubmit formData) s = s"

text \<open>The state after a sequence of events.\<close>

definition run_scripts ::
  "book list \<Rightarrow> js_object \<Rightarrow> nat \<Rightarrow> (string \<Rightarrow> string) \<Rightarrow> event list \<Rightarrow> state \<Rightarrow> state" where
  "run_scripts books authors n fullYear evs s =
     foldl (\<lambda>s' ev. dispatch_scripts books authors n fullYear ev s') s evs"

definition run_part000 ::
  "book list \<Rightarrow> js_object \<Rightarrow> nat \<Rightarrow> (string \<Rightarrow> string) \<Rightarrow> event list \<Rightarrow> state \<Rightarrow> state" where
  "run_part000 books authors n fullYear evs s =
     foldl (\<lambda>s' ev. dispatch_part000 books authors n fullYear ev s') s evs"


subsection \<open>The submit handler of \<^verbatim>\<open>scripts.js\<close> on a store of arrays\<close>

text \<open>
  To tell an assignment to \<^verbatim>\<open>matches\<close> from a mutation of the array it refers to, the
  arrays live in a store and the variables hold addresses. At line 4 \<^verbatim>\<open>matches\<close> and
  \<^verbatim>\<open>books\<close> are the same array. Lines 90 to 110: \<^verbatim>\<open>result\<close> is a new array, every
  \<^verbatim>\<open>push\<close> writes to it, and \<^verbatim>\<open>matches = result\<close> stores its address. The loop reads the
  catalog array, which no push of the loop writes to.
\<close>

record store_state =
  heap :: "book list list"
  books_ref :: nat
  matches_ref :: nat
  page_var :: nat

fun filterLoop_store ::
  "obj \<Rightarrow> book list \<Rightarrow> nat \<Rightarrow> book list list \<Rightarrow> js_error + book list list" where
  "filterLoop_store filters [] result h = Inr h"
| "filterLoop_store filters (b # rest) result h =
     (case loopCondition filters b of
        Inl e \<Rightarrow> Inl e
      | Inr c \<Rightarrow> if c then filterLoop_store filters rest result (h[result := h ! result @ [b]])
                 else filterLoop_store filters rest result h)"

definition searchSubmit_store :: "obj \<Rightarrow> store_state \<Rightarrow> js_error + store_state" where
  "searchSubmit_store filters s =
     (let result = length (heap s);
          h1 = heap s @ [Nil]
      in case filterLoop_store filters (heap s ! books_ref s) result h1 of
           Inl e \<Rightarrow> Inl e
         | Inr h2 \<Rightarrow> Inr (s\<lparr>heap := h2, page_var := 1, matches_ref := result\<rparr>))"

subsection \<open>What is on the page\<close>

text \<open>The previews in the list container carry, in order, the ids of the first
  \<open>BOOKS_PER_PAGE * page\<close> records of \<^verbatim>\<open>matches\<close>.\<close>

definition shows_first_pages :: "nat \<Rightarrow> state \<Rightarrow> bool" where
  "shows_first_pages BOOKS_PER_PAGE s \<longleftrightarrow>
     map data_preview (list_items (doc s)) =
       map id' (take (BOOKS_PER_PAGE * page s) (matches s))"

subsection \<open>The year of a date string\<close>

text \<open>
  The subtitle of the detail overlay prints \<^verbatim>\<open>new Date(published).getFullYear()\<close>. The
  functions below follow the ECMAScript specification of \<^verbatim>\<open>Date\<close>: a time value is a number
  of milliseconds since 1 January 1970 UTC, and \<^verbatim>\<open>getFullYear\<close> is the year of the time
  value shifted to local time.
\<close>

definition msPerDay :: int where
  "msPerDay = 86400000"

definition Day :: "int \<Rightarrow> int" where
  "Day t = t div msPerDay"

definition DaysInYear :: "int \<Rightarrow> int" where
  "DaysInYear y =
     (if y mod 4 \<noteq> 0 then 365
      else if y mod 100 \<noteq> 0 then 366
      else if y mod 400 \<noteq> 0 then 365
      else 366)"

definition DayFromYear :: "int \<Rightarrow> int" where
  "DayFromYear y =
     365 * (y - 1970) + (y - 1969) div 4 - (y - 1901) div 100 + (y - 1601) div 400"

definition TimeFromYear :: "int \<Rightarrow> int" where
  "TimeFromYear y = msPerDay * DayFromYear y"

text \<open>
  \<^verbatim>\<open>YearFromTime(t)\<close> is the largest year whose first day is not after \<open>t\<close>. The search
  walks down from a first guess while the year has not begun, then up while the next year
  has begun; every year has at least 365 days, so both walks end.
\<close>

function year_walk :: "bool \<Rightarrow> int \<Rightarrow> int \<Rightarrow> int" where
  "year_walk down y d =
     (if down then (if d < DayFromYear y then year_walk True (y - 1) d else year_walk False y d)
      else (if DayFromYear (y + 1) \<le> d then year_walk False (y + 1) d else y))"
  by pat_completeness auto
termination
proof -
  have quotient: "(a + 1) div k = a div k + (if a mod k = k - 1 then 1 else 0)"
    if "1 < k" for a k :: int
  proof -
    have "(a + 1) div k = a div k + 1 div k + (a mod k + 1 mod k) div k"
      by (rule div_add1_eq)
    with that have e: "(a + 1) div k = a div k + (a mod k + 1) div k"
      by simp
    have r: "0 \<le> a mod k" "a mod k < k"
      using that by simp_all
    show ?thesis
    proof (cases "a mod k = k - 1")
      case True
      with e that show ?thesis by simp
    next
      case False
      with r have "a mod k + 1 < k" by simp
      with r have "(a mod k + 1) div k = 0" by (simp add: div_pos_pos_trivial)
      with e False show ?thesis by simp
    qed
  qed
  have fourth: "(a - 68) mod 4 = 3" if "a mod 100 = 99" for a :: int
  proof -
    have "a mod 4 = a mod 100 mod 4"
      by (simp add: mod_mod_cancel)
    with that have "a mod 4 = 3" by simp
    moreover have "(a - 68) mod 4 = (a mod 4 - 68 mod 4) mod 4"
      by (rule mod_diff_eq [symmetric])
    ultimately show ?thesis by simp
  qed
  have step: "DayFromYear y + 365 \<le> DayFromYear (y + 1)" for y
  proof -
    have a: "(y - 1968) div 4 = (y - 1969) div 4 + (if (y - 1969) mod 4 = 3 then 1 else 0)"
      using quotient [of 4 "y - 1969"] by simp
    have b: "(y - 1900) div 100 = (y - 1901) div 100 + (if (y - 1901) mod 100 = 99 then 1 else 0)"
      using quotient [of 100 "y - 1901"] by simp
    have c: "(y - 1600) div 400 = (y - 1601) div 400 + (if (y - 1601) mod 400 = 399 then 1 else 0)"
      using quotient [of 400 "y - 1601"] by simp
    have i: "(y - 1901) mod 100 = 99 \<Longrightarrow> (y - 1969) mod 4 = 3"
      using fourth [of "y - 1901"] by simp
    show ?thesis
      unfolding DayFromYear_def using i by (simp add: a b c)
  qed
  have later: "DayFromYear y < DayFromYear (y + 1)" for y
    using step [of y] by simp
  have earlier: "DayFromYear (y - 1) < DayFromYear y" for y
    using step [of "y - 1"] by simp
  have begun: "DayFromYear y < d" if "DayFromYear (y + 1) \<le> d" for y d
    using later [of y] that by simp
  show ?thesis
    by (relation "measures
          [\<lambda>(down, y, d). if down then 1 else 0,
           \<lambda>(down, y, d). if down then nat (DayFromYear y - d) else nat (d - DayFromYear y)]")
       (simp_all add: nat_less_iff later earlier begun)
qed

declare year_walk.simps [simp del]

definition YearFromTime :: "int \<Rightarrow> int" where
  "YearFromTime t = (let d = Day t in year_walk True (1970 + d * 400 div 146097) d)"

definition InLeapYear :: "int \<Rightarrow> bool" where
  "InLeapYear y \<longleftrightarrow> DaysInYear y = 366"

definition DaysInMonth :: "int \<Rightarrow> nat \<Rightarrow> int" where
  "DaysInMonth y m =
     (if m = 2 then (if InLeapYear y then 29 else 28)
      else if m = 4 \<or> m = 6 \<or> m = 9 \<or> m = 11 then 30 else 31)"

text \<open>\<^verbatim>\<open>MakeDay\<close> for a month from 1 to 12 and a day of that month; \<^verbatim>\<open>MakeTime\<close>;
  \<^verbatim>\<open>MakeDate\<close>.\<close>

definition MakeDay :: "int \<Rightarrow> nat \<Rightarrow> nat \<Rightarrow> int" where
  "MakeDay y m dt = DayFromYear y + (\<Sum>k \<leftarrow> [1..<m]. DaysInMonth y k) + int dt - 1"

definition MakeTime :: "nat \<Rightarrow> nat \<Rightarrow> nat \<Rightarrow> nat \<Rightarrow> int" where
  "MakeTime h mi sec ms = int h * 3600000 + int mi * 60000 + int sec * 1000 + int ms"

definition MakeDate :: "int \<Rightarrow> int \<Rightarrow> int" where
  "MakeDate day time = day * msPerDay + time"

definition is_digit :: "char \<Rightarrow> bool" where
  "is_digit c \<longleftrightarrow> 48 \<le> (of_char c :: nat) \<and> (of_char c :: nat) \<le> 57"

definition number :: "string \<Rightarrow> nat option" where
  "number s =
     (if s \<noteq> [] \<and> list_all is_digit s
      then Some (foldl (\<lambda>n c. 10 * n + (of_char c - 48)) 0 s) else None)"

text \<open>
  Two shapes of the date-time string format fix the instant in every browser: the date
  \<^verbatim>\<open>YYYY-MM-DD\<close>, which is midnight UTC, and \<^verbatim>\<open>YYYY-MM-DDTHH:mm:ss.sssZ\<close>. \<open>utc_instant\<close>
  reads these, with a month from 01 to 12, a day that the month has, and a time of day
  before 24:00.
\<close>

definition utc_date :: "string \<Rightarrow> int option" where
  "utc_date s =
     (if length s = 10 \<and> s ! 4 = CHR ''-'' \<and> s ! 7 = CHR ''-''
      then (case (number (take 4 s), number (take 2 (drop 5 s)), number (take 2 (drop 8 s))) of
              (Some y, Some m, Some dt) \<Rightarrow>
                if 1 \<le> m \<and> m \<le> 12 \<and> 1 \<le> dt \<and> int dt \<le> DaysInMonth (int y) m
                then Some (MakeDay (int y) m dt) else None
            | _ \<Rightarrow> None)
      else None)"

definition utc_time :: "string \<Rightarrow> int option" where
  "utc_time s =
     (if length s = 14 \<and> s ! 0 = CHR ''T'' \<and> s ! 3 = CHR '':'' \<and> s ! 6 = CHR '':'' \<and>
         s ! 9 = CHR ''.'' \<and> s ! 13 = CHR ''Z''
      then (case (number (take 2 (drop 1 s)), number (take 2 (drop 4 s)),
                  number (take 2 (drop 7 s)), number (take 3 (drop 10 s))) of
              (Some h, Some mi, Some sec, Some ms) \<Rightarrow>
                if h \<le> 23 \<and> mi \<le> 59 \<and> sec \<le> 59 then Some (MakeTime h mi sec ms) else None
            | _ \<Rightarrow> None)
      else None)"

definition utc_instant :: "string \<Rightarrow> int option" where
  "utc_instant s =
     (case utc_date (take 10 s) of
        None \<Rightarrow> None
      | Some day \<Rightarrow>
          if length s = 10 then Some (MakeDate day 0)
          else (case utc_time (drop 10 s) of
                  None \<Rightarrow> None
                | Some time \<Rightarrow> Some (MakeDate day time)))"

text \<open>
  What is the browser's own: the time value it gives to any other string (\<open>None\<close> is
  \<^verbatim>\<open>NaN\<close>), and \<^verbatim>\<open>LocalTZA\<close>, the offset of local time from UTC at a time value, in
  milliseconds.
\<close>

record browser =
  other_dates :: "string \<Rightarrow> int option"
  LocalTZA :: "int \<Rightarrow> int"

definition Date_parse :: "browser \<Rightarrow> string \<Rightarrow> int option" where
  "Date_parse br s = (case utc_instant s of Some t \<Rightarrow> Some t | None \<Rightarrow> other_dates br s)"

definition show_int :: "int \<Rightarrow> string" where
  "show_int i = (if i < 0 then CHR ''-'' # show_nat (nat (- i)) else show_nat (nat i))"

text \<open>\<^verbatim>\<open>new Date(s).getFullYear()\<close> as a template literal prints it. This is the \<open>fullYear\<close> the
  click handlers are given.\<close>

definition getFullYear :: "browser \<Rightarrow> string \<Rightarrow> string" where
  "getFullYear br s =
     (case Date_parse br s of
        None \<Rightarrow> ''NaN''
      | Some t \<Rightarrow> show_int (YearFromTime (t + LocalTZA br t)))"

subsection \<open>Markup as the browser lays it out\<close>

text \<open>
  HTML collapses every run of white space in markup (tab, line feed, form feed, carriage
  return, space) into one space, between attributes as well as between elements.
  \<open>squeeze seen\<close> does so; \<open>seen\<close> says that the run has already begun.
\<close>

definition isHTMLSpace :: "char \<Rightarrow> bool" where
  "isHTMLSpace c \<longleftrightarrow>
     c = CHR 0x09 \<or> c = CHR 0x0A \<or> c = CHR 0x0C \<or> c = CHR 0x0D \<or> c = CHR 0x20"

fun squeeze :: "bool \<Rightarrow> string \<Rightarrow> string" where
  "squeeze seen [] = []"
| "squeeze seen (c # cs) =
     (if isHTMLSpace c then (if seen then squeeze True cs else CHR 0x20 # squeeze True cs)
      else c # squeeze False cs)"

definition collapse_space :: "string \<Rightarrow> string" where
  "collapse_space s = squeeze False s"

text \<open>Two elements are the same preview when they agree in tag, class and
  \<^verbatim>\<open>data-preview\<close>, and their markup is the same once white space is collapsed.\<close>

definition same_preview :: "element \<Rightarrow> element \<Rightarrow> bool" where
  "same_preview e1 e2 \<longleftrightarrow>
     tagName e1 = tagName e2 \<and> className e1 = className e2 \<and>
     data_preview e1 = data_preview e2 \<and>
     collapse_space (innerHTML e1) = collapse_space (innerHTML e2)"

subsection \<open>The single render function of the specification\<close>

text \<open>
  \<open>renderPage\<close> in the specification's words: it puts into the list container the slice
  \<open>records[(page - 1) * N : page * N]\<close>, one preview per record; the first page replaces
  what is there, the later pages append. The preview of a record is the one of
  \<^verbatim>\<open>createBookPreviewElement\<close>.
\<close>

definition renderPage :: "js_object \<Rightarrow> nat \<Rightarrow> book list \<Rightarrow> nat \<Rightarrow> document \<Rightarrow> document" where
  "renderPage authors N records page' d =
     (let fragment = map (createBookPreviewElement authors)
            (slice records ((page' - 1) * N) (page' * N))
      in if page' = 1 then d\<lparr>list_items := fragment\<rparr>
         else d\<lparr>list_items := list_items d @ fragment\<rparr>)"

subsection \<open>A small catalog and an empty page, for concrete runs\<close>

definition book1 :: book where
  "book1 = \<lparr>id' = ''b1'', title = ''Dune'', author = ''a1'', image' = ''dune.jpg'',
            description = ''Sand'', published = ''1965-08-01'', genres = [''g1'']\<rparr>"

definition book2 :: book where
  "book2 = \<lparr>id' = ''b2'', title = ''Emma'', author = ''a2'', image' = ''emma.jpg'',
            description = ''Matchmaking'', published = ''1815-12-23'', genres = [''g2'']\<rparr>"

definition book3 :: book where
  "book3 = \<lparr>id' = ''b3'', title = ''Ulysses'', author = ''a3'', image' = ''ulysses.jpg'',
            description = ''Dublin'', published = ''1922-02-02'', genres = [''g2'', ''g3'']\<rparr>"

definition some_authors :: js_object where
  "some_authors =
     \<lparr>own_entries =
        [(''a1'', ''Frank Herbert''), (''a2'', ''Jane Austen''), (''a3'', ''James Joyce'')],
      inherited = [''toString'' \<mapsto> ''function toString() { [native code] }'']\<rparr>"

definition some_genres :: lookup where
  "some_genres = [(''g1'', ''Science fiction''), (''g2'', ''Novel''), (''g3'', ''Modernism'')]"




definition some_year :: "string \<Rightarrow> string" where
  "some_year d = take 4 d"

definition empty_page :: document where
  "empty_page =
     \<lparr>list_items = [], list_message_show = False, list_button_disabled = False,
      list_button_innerHTML = [],
      list_active = \<lparr>active_open = False, blur_src = [], image_src = [], title_innerText = [],
                     subtitle_innerText = [], description_innerText = []\<rparr>,
      search_overlay_open = False, settings_overlay_open = False, search_form_open = False,
      search_title_focused = False, search_genres = [], search_authors = [],
      settings_theme_value = ''day'', color_dark = ''10, 10, 20'',
      color_light = ''255, 255, 255'', scroll_top = 0\<rparr>"


definition three_books :: "book list" where
  "three_books = [book1, book2, book3]"

text \<open>The form data of a settings form on which the user chose the night theme.\<close>

definition night_form :: obj where
  "night_form = [''theme'' \<mapsto> ''night'']"


subsection \<open>Clicks on the list container\<close>


definition preview_node :: "string \<Rightarrow> node" where
  "preview_node i = \<lparr>node_classes = [''preview''], node_preview = Some i\<rparr>"

text \<open>The detail overlay as the specification describes it for a record: open, the image
  as backdrop and as foreground, the title, the subtitle \<open>authorName (publicationYear)\<close>, the
  description.\<close>

definition detail_of :: "js_object \<Rightarrow> (string \<Rightarrow> string) \<Rightarrow> book \<Rightarrow> detail_overlay" where
  "detail_of authors fullYear b =
     \<lparr>active_open = True, blur_src = image' b, image_src = image' b,
      title_innerText = title b,
      subtitle_innerText =
        author_name authors (author b) @ '' ('' @ fullYear (published b) @ '')'',
      description_innerText = description b\<rparr>"

section \<open>Properties of the filter\<close>

lemma includes_str_sublist: "includes_str s t \<longleftrightarrow> sublist t s"
  by (induction s) (simp_all add: sublist_Cons_right)

lemma includes_arr_set: "includes_arr xs (Some v) \<longleftrightarrow> v \<in> set xs"
  by (induction xs) auto

lemma genreLoop_True: "genreLoop g True xs = True"
  by (cases xs) simp_all

lemma genreLoop_set: "genreLoop (Some g) m xs \<longleftrightarrow> m \<or> g \<in> set xs"
  by (induction xs arbitrary: m) (auto simp: genreLoop_True)

lemma criteria_fields:
  "criteria g a t ''genre'' = Some g"
  "criteria g a t ''author'' = Some a"
  "criteria g a t ''title'' = Some t"
  by (simp_all add: criteria_def)

lemma loopCondition_criteria:
  "loopCondition (criteria g a t) b = Inr (satisfies g a t b)"
  by (simp add: loopCondition_def criteria_fields genreLoop_set includes_str_sublist
      satisfies_def eq_commute [of "author b"] conj_ac)

lemma filterLoop_criteria:
  "filterLoop (criteria g a t) bs result = Inr (result @ filter (satisfies g a t) bs)"
  by (induction bs arbitrary: result) (simp_all add: loopCondition_criteria)

lemma filterBooks_callback_criteria:
  "filterBooks_callback (criteria g a t) b = Inr (satisfies g a t b)"
  by (simp add: filterBooks_callback_def criteria_fields includes_arr_set includes_str_sublist
      satisfies_def eq_commute [of "author b"])

lemma filter_arr_total:
  "(\<And>x. f x = Inr (P x)) \<Longrightarrow> filter_arr f xs = Inr (filter P xs)"
  by (induction xs) simp_all

lemma filterBooks_criteria:
  "filterBooks books (criteria g a t) = Inr (filter (satisfies g a t) books)"
  unfolding filterBooks_def
  by (rule filter_arr_total) (rule filterBooks_callback_criteria)

text \<open>
  C1. For every catalog and every criteria (genre, author, title), the filter of both files
  (the loop of \<^verbatim>\<open>scripts.js\<close> started on an empty \<^verbatim>\<open>result\<close>, and \<^verbatim>\<open>filterBooks\<close>) returns
  without an error exactly the catalog's records that satisfy the three predicates: a record
  is in the result if and only if it is in the catalog and satisfies them, and the result
  is a subsequence of the catalog in the catalog's order (it is the catalog with the other
  records left out).
\<close>

theorem C1_filter_exact:
  "filterLoop (criteria g a t) books [] = Inr (filter (satisfies g a t) books) \<and>
   filterBooks books (criteria g a t) = Inr (filter (satisfies g a t) books) \<and>
   set (filter (satisfies g a t) books) = {b. b \<in> set books \<and> satisfies g a t b} \<and>
   subseq (filter (satisfies g a t) books) books"
proof -
  have "filterLoop (criteria g a t) books [] = Inr (filter (satisfies g a t) books)"
    using filterLoop_criteria [of g a t books "[]"] by simp
  moreover have "set (filter (satisfies g a t) books) = {b. b \<in> set books \<and> satisfies g a t b}"
    by auto
  ultimately show ?thesis
    by (simp add: filterBooks_criteria)
qed

section \<open>What is on the page after any sequence of events\<close>

lemma data_preview_create: "data_preview \<circ> createBookPreviewElement A = id'"
  by (rule ext) (simp add: createBookPreviewElement_def)

lemma data_preview_inline: "data_preview \<circ> inlinePreview_scripts A = id'"
  by (rule ext) (simp add: inlinePreview_scripts_def)

lemma slice_first: "slice xs 0 n = take n xs"
  by (simp add: slice_def)

lemma slice_next: "slice xs (p * n) ((p + 1) * n) = take n (drop (p * n) xs)"
  by (simp add: slice_def)

lemma take_pages:
  "map f (take (n * p) xs) @ map f (slice xs (p * n) (n + p * n)) = map f (take (n + n * p) xs)"
proof -
  have "take (n * p + n) xs = take (n * p) xs @ take n (drop (n * p) xs)"
    by (rule take_add)
  moreover have "slice xs (p * n) (n + p * n) = take n (drop (n * p) xs)"
    by (simp add: slice_def mult.commute)
  ultimately show ?thesis
    by (simp add: add.commute)
qed

lemma init_state_shows:
  "list_items d0 = [] \<Longrightarrow> shows_first_pages n (init_state books A n d0)"
  by (simp add: shows_first_pages_def init_state_def renderInitialBooks_def slice_first
      data_preview_create)

lemma searchSubmit_scripts_shows:
  "searchSubmit_scripts books A n fd s = Inr s' \<Longrightarrow> shows_first_pages n s'"
  by (auto simp: searchSubmit_scripts_def shows_first_pages_def slice_first data_preview_inline
      Let_def split: sum.splits)

lemma listButtonClick_scripts_shows:
  "shows_first_pages n s \<Longrightarrow> shows_first_pages n (listButtonClick_scripts A n s)"
  by (simp add: listButtonClick_scripts_def shows_first_pages_def data_preview_inline
      take_pages Let_def)

lemma listItemsClick_scripts_frame:
  "page (listItemsClick_scripts books A fy path s) = page s"
  "matches (listItemsClick_scripts books A fy path s) = matches s"
  "list_items (doc (listItemsClick_scripts books A fy path s)) = list_items (doc s)"
  by (simp_all add: listItemsClick_scripts_def split: option.splits)

lemma dispatch_scripts_shows:
  "shows_first_pages n s \<Longrightarrow> shows_first_pages n (dispatch_scripts books A n fy ev s)"
proof (cases ev)
  case (SearchFormSubmit fd)
  then show "shows_first_pages n s \<Longrightarrow> ?thesis"
    by (auto split: sum.splits dest: searchSubmit_scripts_shows)
next
  case ListButtonClick
  then show "shows_first_pages n s \<Longrightarrow> ?thesis"
    by (simp add: listButtonClick_scripts_shows)
next
  case (ListItemsClick path)
  then show "shows_first_pages n s \<Longrightarrow> ?thesis"
    by (simp add: shows_first_pages_def listItemsClick_scripts_frame)
qed simp_all

lemma run_scripts_shows:
  "shows_first_pages n s \<Longrightarrow> shows_first_pages n (run_scripts books A n fy evs s)"
  unfolding run_scripts_def
  by (induction evs arbitrary: s) (simp_all add: dispatch_scripts_shows)

lemma listButtonClick_part000_shows:
  "shows_first_pages n s \<Longrightarrow> shows_first_pages n (listButtonClick_part000 A n s)"
  by (simp add: listButtonClick_part000_def shows_first_pages_def data_preview_create
      take_pages Let_def updateShowMoreButton_def)

lemma listItemsClick_part000_frame:
  "page (listItemsClick_part000 books A fy path s) = page s"
  "matches (listItemsClick_part000 books A fy path s) = matches s"
  "list_items (doc (listItemsClick_part000 books A fy path s)) = list_items (doc s)"
  by (simp_all add: listItemsClick_part000_def displayBookDetails_def Let_def split: option.splits)

lemma searchSubmit_part000_frame:
  "page (searchSubmit_part000 fd s) = page s"
  "matches (searchSubmit_part000 fd s) = matches s"
  "list_items (doc (searchSubmit_part000 fd s)) = list_items (doc s)"
  by (simp_all add: searchSubmit_part000_def applyTheme_def Let_def)

lemma dispatch_part000_shows:
  "shows_first_pages n s \<Longrightarrow> shows_first_pages n (dispatch_part000 books A n fy ev s)"
  by (cases ev)
    (simp_all add: listButtonClick_part000_shows,
     simp_all add: shows_first_pages_def listItemsClick_part000_frame searchSubmit_part000_frame)

lemma run_part000_shows:
  "shows_first_pages n s \<Longrightarrow> shows_first_pages n (run_part000 books A n fy evs s)"
  unfolding run_part000_def
  by (induction evs arbitrary: s) (simp_all add: dispatch_part000_shows)

lemma shows_first_pages_count:
  "shows_first_pages n s \<Longrightarrow>
   length (list_items (doc s)) = min (n * page s) (length (matches s))"
proof -
  assume "shows_first_pages n s"
  then have "length (map data_preview (list_items (doc s))) =
             length (map id' (take (n * page s) (matches s)))"
    by (simp only: shows_first_pages_def)
  then show ?thesis by (simp add: min.commute)
qed

text \<open>
  C4. Let the list container be empty in the page as loaded. After the first paint and any
  sequence of events handled by either file (which covers every later render: the repaint
  of a filter submission and the append of show more), the number of previews in the list
  container is \<open>min (BOOKS_PER_PAGE * page) (length matches)\<close>, for the current \<open>page\<close> and
  \<open>matches\<close>.
\<close>

theorem C4_rendered_count:
  assumes "list_items d0 = []"
  shows "length (list_items (doc (run_scripts books A n fy evs (init_state books A n d0)))) =
           min (n * page (run_scripts books A n fy evs (init_state books A n d0)))
               (length (matches (run_scripts books A n fy evs (init_state books A n d0)))) \<and>
         length (list_items (doc (run_part000 books A n fy evs (init_state books A n d0)))) =
           min (n * page (run_part000 books A n fy evs (init_state books A n d0)))
               (length (matches (run_part000 books A n fy evs (init_state books A n d0))))"
  using assms
  by (simp add: shows_first_pages_count run_scripts_shows run_part000_shows init_state_shows)

theorem C4_rendered_count_witness:
  "list_items empty_page = [] \<and>
   length (list_items (doc (run_scripts [book1, book2, book3] some_authors 2 some_year
     [ListButtonClick] (init_state [book1, book2, book3] some_authors 2 empty_page)))) = 3 \<and>
   length (list_items (doc (run_part000 [book1, book2, book3] some_authors 2 some_year
     [ListButtonClick] (init_state [book1, book2, book3] some_authors 2 empty_page)))) = 3"
proof -
  have h: "list_items empty_page = []"
    by (simp add: empty_page_def)
  show ?thesis
    using h C4_rendered_count [OF h, of "[book1, book2, book3]" some_authors 2 some_year
        "[ListButtonClick]"]
    by (simp add: run_scripts_def run_part000_def init_state_def listButtonClick_scripts_def
        listButtonClick_part000_def Let_def)
qed

section \<open>The submit handler of the search form\<close>

lemma searchSubmit_scripts_criteria:
  "searchSubmit_scripts books A n (criteria g a t) s =
     Inr \<lparr>page = 1, matches = filter (satisfies g a t) books,
          doc = (doc s)\<lparr>
            list_message_show := (filter (satisfies g a t) books = []),
            list_items := map (inlinePreview_scripts A) (take n (filter (satisfies g a t) books)),
            list_button_disabled := (int (length (filter (satisfies g a t) books)) - int n < 1),
            list_button_innerHTML :=
              show_more_html (length (filter (satisfies g a t) books) - n),
            scroll_top := 0,
            search_overlay_open := False\<rparr>\<rparr>"
proof -
  have loop: "filterLoop (criteria g a t) books [] = Inr (filter (satisfies g a t) books)"
    using filterLoop_criteria [of g a t books "[]"] by simp
  show ?thesis
    unfolding searchSubmit_scripts_def loop
    by (simp add: Let_def slice_first nat_diff_distrib' del: filter.simps)
qed

lemma filterLoop_store_criteria:
  "r < length h \<Longrightarrow>
   filterLoop_store (criteria g a t) bs r h = Inr (h[r := h ! r @ filter (satisfies g a t) bs])"
  by (induction bs arbitrary: h) (simp_all add: loopCondition_criteria)

lemma searchSubmit_store_criteria:
  "searchSubmit_store (criteria g a t) s =
     Inr (s\<lparr>heap := heap s @ [filter (satisfies g a t) (heap s ! books_ref s)],
            page_var := 1, matches_ref := length (heap s)\<rparr>)"
  by (simp add: searchSubmit_store_def Let_def filterLoop_store_criteria)

lemma searchSubmit_store_keeps_arrays:
  assumes "searchSubmit_store (criteria g a t) s = Inr s'" and "r < length (heap s)"
  shows "heap s' ! r = heap s ! r" and "matches_ref s' \<noteq> r"
  using assms by (auto simp: searchSubmit_store_criteria nth_append)

lemma searchSubmit_scripts_resets:
  "searchSubmit_scripts books A n (criteria g a t) s = Inr s' \<Longrightarrow>
   page s' = 1 \<and> matches s' = filter (satisfies g a t) books"
  by (auto simp: searchSubmit_scripts_criteria)

lemma searchSubmit_scripts_empty_state:
  "searchSubmit_scripts books A n (criteria g a t) s = Inr s' \<Longrightarrow>
   list_message_show (doc s') = (filter (satisfies g a t) books = []) \<and>
   (filter (satisfies g a t) books = [] \<longrightarrow> list_items (doc s') = [])"
  by (auto simp: searchSubmit_scripts_criteria)

lemma dispatch_settings_submit:
  "dispatch_scripts books A n fy (SettingsFormSubmit fd) s = s"
  "dispatch_part000 books A n fy (SettingsFormSubmit fd) s = s"
  by simp_all

lemma searchSubmit_part000_effect:
  "searchSubmit_part000 fd s =
     s\<lparr>doc := (doc s)\<lparr>
       color_dark := (if fd ''theme'' = Some ''night'' then ''255, 255, 255'' else ''10, 10, 20''),
       color_light := (if fd ''theme'' = Some ''night'' then ''10, 10, 20'' else ''255, 255, 255''),
       search_form_open := False\<rparr>\<rparr>"
  by (simp add: searchSubmit_part000_def applyTheme_def Let_def)

lemma applyTheme_idem: "applyTheme t (applyTheme t d) = applyTheme t d"
  by (simp add: applyTheme_def Let_def)


text \<open>
  C2. In \<^verbatim>\<open>scripts.js\<close> every submission of the search form sets \<open>page\<close> to 1 and assigns
  the new filter result to \<open>matches\<close> (\<open>searchSubmit_scripts_resets\<close>), and on the store the
  result is a new array while every array that existed, the old \<open>matches\<close> and the catalog
  among them, keeps its content (\<open>searchSubmit_store_keeps_arrays\<close>). The second file binds
  to the search form a handler that applies a theme instead, and calls neither
  \<^verbatim>\<open>filterBooks\<close> nor \<^verbatim>\<open>updateBookList\<close>. With three books, one per page, and two clicks on
  show more, submitting the search form for genre \<open>g1\<close> leaves \<open>page\<close> at 3 and \<open>matches\<close> at
  the whole catalog in the second file, although its own \<^verbatim>\<open>filterBooks\<close> returns one book;
  \<^verbatim>\<open>scripts.js\<close> ends at page 1 with that book.
\<close>

theorem C2_submit_part000:
  "page (run_part000 three_books some_authors 1 some_year
      [ListButtonClick, ListButtonClick, SearchFormSubmit (criteria ''g1'' ''any'' [])]
      (init_state three_books some_authors 1 empty_page)) = 3 \<and>
   matches (run_part000 three_books some_authors 1 some_year
      [ListButtonClick, ListButtonClick, SearchFormSubmit (criteria ''g1'' ''any'' [])]
      (init_state three_books some_authors 1 empty_page)) = three_books \<and>
   filterBooks three_books (criteria ''g1'' ''any'' []) = Inr [book1] \<and>
   page (run_scripts three_books some_authors 1 some_year
      [ListButtonClick, ListButtonClick, SearchFormSubmit (criteria ''g1'' ''any'' [])]
      (init_state three_books some_authors 1 empty_page)) = 1 \<and>
   matches (run_scripts three_books some_authors 1 some_year
      [ListButtonClick, ListButtonClick, SearchFormSubmit (criteria ''g1'' ''any'' [])]
      (init_state three_books some_authors 1 empty_page)) = [book1]"
  by code_simp

text \<open>
  C6. In \<^verbatim>\<open>scripts.js\<close> a submission always returns, shows the message exactly when the
  result is empty and then leaves the list container empty
  (\<open>searchSubmit_scripts_criteria\<close>, \<open>searchSubmit_scripts_empty_state\<close>). The second file has
  no statement that touches the class \<^verbatim>\<open>list__message_show\<close>: submitting a filter that
  matches no book leaves the message hidden and the first page of the old list in place,
  and \<^verbatim>\<open>updateBookList\<close> called with an empty result clears the list but leaves the message
  hidden too.
\<close>

theorem C6_empty_result_part000:
  "filterBooks three_books (criteria ''g9'' ''any'' []) = Inr [] \<and>
   list_message_show (doc (run_part000 three_books some_authors 1 some_year
      [SearchFormSubmit (criteria ''g9'' ''any'' [])]
      (init_state three_books some_authors 1 empty_page))) = False \<and>
   map data_preview (list_items (doc (run_part000 three_books some_authors 1 some_year
      [SearchFormSubmit (criteria ''g9'' ''any'' [])]
      (init_state three_books some_authors 1 empty_page)))) = [''b1''] \<and>
   list_message_show (doc (updateBookList some_authors 1 []
      (init_state three_books some_authors 1 empty_page))) = False \<and>
   list_message_show (doc (run_scripts three_books some_authors 1 some_year
      [SearchFormSubmit (criteria ''g9'' ''any'' [])]
      (init_state three_books some_authors 1 empty_page))) = True \<and>
   list_items (doc (run_scripts three_books some_authors 1 some_year
      [SearchFormSubmit (criteria ''g9'' ''any'' [])]
      (init_state three_books some_authors 1 empty_page))) = []"
  by code_simp

text \<open>
  C5. No listener is registered on the settings form in either file. The handler that
  reads \<^verbatim>\<open>theme\<close>, applies it and closes something is bound to the search form in the second
  file, and what it closes is the \<^verbatim>\<open>open\<close> property of that form. So after the settings are
  opened and the settings form is submitted with the night theme, the settings overlay is
  still open and the colours are what they were; in \<^verbatim>\<open>scripts.js\<close> the state is unchanged
  altogether. Submitting the search form with the same data in the second file does apply
  the night colours, and leaves the settings overlay open.
\<close>

theorem C5_settings_submit_unhandled:
  "settings_overlay_open (doc (run_part000 three_books some_authors 1 some_year
      [HeaderSettingsClick, SettingsFormSubmit night_form]
      (init_state three_books some_authors 1 empty_page))) = True \<and>
   color_dark (doc (run_part000 three_books some_authors 1 some_year
      [HeaderSettingsClick, SettingsFormSubmit night_form]
      (init_state three_books some_authors 1 empty_page))) = color_dark empty_page \<and>
   color_light (doc (run_part000 three_books some_authors 1 some_year
      [HeaderSettingsClick, SettingsFormSubmit night_form]
      (init_state three_books some_authors 1 empty_page))) = color_light empty_page \<and>
   run_scripts three_books some_authors 1 some_year [SettingsFormSubmit night_form]
      (init_state three_books some_authors 1 (empty_page\<lparr>settings_overlay_open := True\<rparr>)) =
      init_state three_books some_authors 1 (empty_page\<lparr>settings_overlay_open := True\<rparr>) \<and>
   color_dark (doc (run_part000 three_books some_authors 1 some_year
      [HeaderSettingsClick, SearchFormSubmit night_form]
      (init_state three_books some_authors 1 empty_page))) = ''255, 255, 255'' \<and>
   settings_overlay_open (doc (run_part000 three_books some_authors 1 some_year
      [HeaderSettingsClick, SearchFormSubmit night_form]
      (init_state three_books some_authors 1 empty_page))) = True"
  by code_simp

section \<open>Show more\<close>

lemma listButtonClick_scripts_effect:
  "listButtonClick_scripts A n s =
     s\<lparr>page := page s + 1,
       doc := (doc s)\<lparr>list_items := list_items (doc s) @
         map (inlinePreview_scripts A) (slice (matches s) (page s * n) ((page s + 1) * n))\<rparr>\<rparr>"
  by (simp add: listButtonClick_scripts_def Let_def)

lemma remaining_shown: "nat (if int m - int k > 0 then int m - int k else 0) = m - k"
  by (cases "k < m") (simp_all add: nat_diff_distrib')

lemma remaining_none: "int m - int k \<le> 0 \<longleftrightarrow> m \<le> k"
  by arith

lemma updateShowMoreButton_effect:
  "updateShowMoreButton n p m d =
     d\<lparr>list_button_disabled := (m \<le> p * n),
       list_button_innerHTML := show_more_html (m - p * n)\<rparr>"
  unfolding updateShowMoreButton_def Let_def remaining_shown remaining_none ..

lemma listButtonClick_part000_effect:
  "listButtonClick_part000 A n s =
     s\<lparr>page := page s + 1,
       doc := (doc s)\<lparr>
         list_items := list_items (doc s) @
           map (createBookPreviewElement A) (slice (matches s) (page s * n) ((page s + 1) * n)),
         list_button_disabled := (length (matches s) \<le> (page s + 1) * n),
         list_button_innerHTML := show_more_html (length (matches s) - (page s + 1) * n)\<rparr>\<rparr>"
  by (simp add: listButtonClick_part000_def updateShowMoreButton_effect Let_def)

lemma data_preview_simps:
  "data_preview (inlinePreview_scripts A b) = id' b"
  "data_preview (createBookPreviewElement A b) = id' b"
  by (simp_all add: inlinePreview_scripts_def createBookPreviewElement_def)

lemma slice_exhausted: "length xs \<le> p * n \<Longrightarrow> slice xs (p * n) ((p + 1) * n) = []"
  by (simp add: slice_def)

lemma shows_first_pages_prefix:
  "shows_first_pages n s \<Longrightarrow> prefix (map data_preview (list_items (doc s))) (map id' (matches s))"
  by (simp add: shows_first_pages_def take_map [symmetric] take_is_prefix)

lemma shows_first_pages_distinct:
  "shows_first_pages n s \<Longrightarrow> distinct (map id' (matches s)) \<Longrightarrow>
   distinct (map data_preview (list_items (doc s)))"
  by (simp add: shows_first_pages_def take_map [symmetric] distinct_take)

text \<open>
  C3. Both click handlers append exactly the slice
  \<open>slice matches (page * BOOKS_PER_PAGE) ((page + 1) * BOOKS_PER_PAGE)\<close>, which is empty when
  \<open>matches\<close> is exhausted, and add 1 to \<open>page\<close> (\<open>listButtonClick_scripts_effect\<close>,
  \<open>listButtonClick_part000_effect\<close>, \<open>slice_exhausted\<close>); the ids on the page stay a prefix of
  the ids of \<open>matches\<close>, so no position of \<open>matches\<close> is rendered twice
  (\<open>shows_first_pages_prefix\<close>, \<open>shows_first_pages_distinct\<close>). Only the second file
  recomputes the remaining count. In \<^verbatim>\<open>scripts.js\<close>, with three books and one per page, the
  button reads 2 after a submission that matches all three, and still reads 2 after a
  click on show more has put the second book on the page; the second file's handler
  writes 1 at the same point.
\<close>

theorem C3_show_more_label_scripts:
  "page (run_scripts three_books some_authors 1 some_year
      [SearchFormSubmit (criteria ''any'' ''any'' []), ListButtonClick]
      (init_state three_books some_authors 1 empty_page)) = 2 \<and>
   map data_preview (list_items (doc (run_scripts three_books some_authors 1 some_year
      [SearchFormSubmit (criteria ''any'' ''any'' []), ListButtonClick]
      (init_state three_books some_authors 1 empty_page)))) = [''b1'', ''b2''] \<and>
   list_button_innerHTML (doc (run_scripts three_books some_authors 1 some_year
      [SearchFormSubmit (criteria ''any'' ''any'' [])]
      (init_state three_books some_authors 1 empty_page))) = show_more_html 2 \<and>
   list_button_innerHTML (doc (run_scripts three_books some_authors 1 some_year
      [SearchFormSubmit (criteria ''any'' ''any'' []), ListButtonClick]
      (init_state three_books some_authors 1 empty_page))) = show_more_html 2 \<and>
   list_button_innerHTML (doc (run_part000 three_books some_authors 1 some_year
      [ListButtonClick]
      (init_state three_books some_authors 1 empty_page))) = show_more_html 1 \<and>
   show_more_html 2 \<noteq> show_more_html 1"
  by code_simp

section \<open>The year of a date and the name of an author\<close>

text \<open>\<open>YearFromTime\<close> meets its specification (\<open>YearFromTime_spec\<close>, \<open>YearFromTime_largest\<close>), and
  \<open>DayFromYear\<close> agrees with \<open>DaysInYear\<close> (\<open>DayFromYear_next\<close>).\<close>

lemma quotient_step:
  assumes "1 < (k::int)"
  shows "(a + 1) div k = a div k + (if a mod k = k - 1 then 1 else 0)"
proof -
  have "(a + 1) div k = a div k + 1 div k + (a mod k + 1 mod k) div k"
    by (rule div_add1_eq)
  with assms have e: "(a + 1) div k = a div k + (a mod k + 1) div k"
    by simp
  have r: "0 \<le> a mod k" "a mod k < k"
    using assms by simp_all
  show ?thesis
  proof (cases "a mod k = k - 1")
    case True
    with e assms show ?thesis by simp
  next
    case False
    with r have "a mod k + 1 < k" by simp
    with r have "(a mod k + 1) div k = 0" by (simp add: div_pos_pos_trivial)
    with e False show ?thesis by simp
  qed
qed

lemma mod_shift:
  assumes "c mod k = 1" and "1 < (k::int)"
  shows "(a - c) mod k = k - 1 \<longleftrightarrow> a mod k = 0"
proof -
  have e: "(a - c) mod k = (a mod k - 1) mod k"
    using assms mod_diff_eq [of a k c] by simp
  have r: "0 \<le> a mod k" "a mod k < k"
    using assms by simp_all
  show ?thesis
  proof (cases "a mod k = 0")
    case True
    with e have "(a - c) mod k = (- 1) mod k" by simp
    also have "\<dots> = k - 1" using assms by (simp add: zmod_minus1)
    finally show ?thesis using True by simp
  next
    case False
    with r have "0 \<le> a mod k - 1" "a mod k - 1 < k" by simp_all
    then have "(a mod k - 1) mod k = a mod k - 1" by (rule mod_pos_pos_trivial)
    with e r False show ?thesis by simp
  qed
qed

lemma DayFromYear_next: "DayFromYear (y + 1) = DayFromYear y + DaysInYear y"
proof -
  have a: "(y - 1968) div 4 = (y - 1969) div 4 + (if y mod 4 = 0 then 1 else 0)"
    using quotient_step [of 4 "y - 1969"] mod_shift [of 1969 4 y] by simp
  have b: "(y - 1900) div 100 = (y - 1901) div 100 + (if y mod 100 = 0 then 1 else 0)"
    using quotient_step [of 100 "y - 1901"] mod_shift [of 1901 100 y] by simp
  have c: "(y - 1600) div 400 = (y - 1601) div 400 + (if y mod 400 = 0 then 1 else 0)"
    using quotient_step [of 400 "y - 1601"] mod_shift [of 1601 400 y] by simp
  have m: "y mod 100 = 0 \<Longrightarrow> y mod 4 = 0" "y mod 400 = 0 \<Longrightarrow> y mod 100 = 0"
    by (auto simp: mod_eq_0_iff_dvd elim: dvd_trans [rotated])
  show ?thesis
    unfolding DayFromYear_def DaysInYear_def using m by (auto simp add: a b c)
qed

lemma year_walk_bounds:
  "down \<or> DayFromYear y \<le> d \<Longrightarrow>
   DayFromYear (year_walk down y d) \<le> d \<and> d < DayFromYear (year_walk down y d + 1)"
proof (induction down y d rule: year_walk.induct)
  case (1 down y d)
  show ?case
  proof (cases down)
    case True
    show ?thesis
    proof (cases "d < DayFromYear y")
      case less: True
      with True have "year_walk down y d = year_walk True (y - 1) d"
        by (subst year_walk.simps) simp
      with 1(1) True less show ?thesis by simp
    next
      case False
      with True have "year_walk down y d = year_walk False y d"
        by (subst year_walk.simps) simp
      with 1(2) True False show ?thesis by simp
    qed
  next
    case False
    show ?thesis
    proof (cases "DayFromYear (y + 1) \<le> d")
      case next_begun: True
      with False have "year_walk down y d = year_walk False (y + 1) d"
        by (subst year_walk.simps) simp
      with 1(3) False next_begun show ?thesis by simp
    next
      case not_yet: False
      with False have "year_walk down y d = y"
        by (subst year_walk.simps) simp
      with 1(4) False not_yet show ?thesis by simp
    qed
  qed
qed


lemma Day_bounds: "msPerDay * Day t \<le> t \<and> t < msPerDay * (Day t + 1)"
proof -
  have p: "0 < msPerDay" by (simp add: msPerDay_def)
  have e: "msPerDay * Day t + t mod msPerDay = t"
    unfolding Day_def by simp
  have "0 \<le> t mod msPerDay" "t mod msPerDay < msPerDay"
    using p by simp_all
  with e show ?thesis
    by (simp add: algebra_simps)
qed

lemma YearFromTime_spec:
  "TimeFromYear (YearFromTime t) \<le> t \<and> t < TimeFromYear (YearFromTime t + 1)"
proof -
  define d where "d = Day t"
  define y where "y = YearFromTime t"
  have y: "y = year_walk True (1970 + d * 400 div 146097) d"
    by (simp add: y_def YearFromTime_def d_def Let_def)
  have b: "DayFromYear y \<le> d \<and> d < DayFromYear (y + 1)"
    unfolding y by (rule year_walk_bounds) simp
  have t: "msPerDay * d \<le> t \<and> t < msPerDay * (d + 1)"
    unfolding d_def by (rule Day_bounds)
  have "msPerDay * DayFromYear y \<le> msPerDay * d"
    using b by (simp add: msPerDay_def)
  moreover have "msPerDay * (d + 1) \<le> msPerDay * DayFromYear (y + 1)"
    using b by (simp add: msPerDay_def)
  ultimately show ?thesis
    using t by (simp add: TimeFromYear_def y_def)
qed

lemma DayFromYear_mono: "y \<le> z \<Longrightarrow> DayFromYear y \<le> DayFromYear z"
proof -
  assume "y \<le> z"
  then have z: "z = y + int (nat (z - y))" by simp
  have "DayFromYear y \<le> DayFromYear (y + int k)" for k
  proof (induction k)
    case 0
    show ?case by simp
  next
    case (Suc k)
    have "0 \<le> DaysInYear (y + int k)" by (simp add: DaysInYear_def)
    then have "DayFromYear (y + int k) \<le> DayFromYear (y + int k + 1)"
      by (simp add: DayFromYear_next)
    with Suc show ?case by (simp add: ac_simps)
  qed
  with z show ?thesis by metis
qed

lemma YearFromTime_largest: "TimeFromYear z \<le> t \<Longrightarrow> z \<le> YearFromTime t"
proof (rule ccontr)
  assume z: "TimeFromYear z \<le> t" and "\<not> z \<le> YearFromTime t"
  then have "YearFromTime t + 1 \<le> z" by simp
  then have "DayFromYear (YearFromTime t + 1) \<le> DayFromYear z" by (rule DayFromYear_mono)
  then have "TimeFromYear (YearFromTime t + 1) \<le> TimeFromYear z"
    by (simp add: TimeFromYear_def msPerDay_def)
  with z YearFromTime_spec [of t] show False by simp
qed

lemma getFullYear_parsed:
  "Date_parse br s = Some t \<Longrightarrow> getFullYear br s = show_int (YearFromTime (t + LocalTZA br t))"
  by (simp add: getFullYear_def)

lemma Date_parse_utc: "utc_instant s = Some t \<Longrightarrow> Date_parse br s = Some t"
  by (simp add: Date_parse_def)

lemma author_name_own:
  "map_of (own_entries A) a = Some n \<Longrightarrow> author_name A a = n"
  by (simp add: author_name_def)

section \<open>Clicks on a preview\<close>

lemma bookLoop_Some: "bookLoop bs (Some r) p = Some r"
  by (cases bs) simp_all

lemma bookLoop_find: "bookLoop bs None p = find (\<lambda>b. id' b = p) bs"
  by (induction bs) (simp_all add: bookLoop_Some)

lemma pathLoop_Some: "pathLoop bs (Some r) path = Some r"
  by (cases path) simp_all













lemma bookLoop_in_catalog: "bookLoop bs None p = Some b \<Longrightarrow> b \<in> set bs"
  by (auto simp: bookLoop_find dest: find_Some_iff [THEN iffD1] simp: in_set_conv_nth)

lemma pathLoop_in_catalog: "pathLoop bs None path = Some b \<Longrightarrow> b \<in> set bs"
proof (induction path)
  case Nil
  then show ?case by simp
next
  case (Cons n path)
  show ?case
  proof (cases "node_preview n")
    case None
    with Cons show ?thesis by simp
  next
    case (Some p)
    show ?thesis
    proof (cases "p = [] \<or> bookLoop bs None p = None")
      case True
      with Cons Some show ?thesis by (auto split: if_splits)
    next
      case False
      then obtain c where c: "bookLoop bs None p = Some c" by auto
      with Cons.prems Some False have "c = b" by (simp add: pathLoop_Some)
      with c show ?thesis by (simp add: bookLoop_in_catalog)
    qed
  qed
qed

lemma find_in_catalog: "find P bs = Some b \<Longrightarrow> b \<in> set bs"
  by (auto simp: find_Some_iff in_set_conv_nth)


text \<open>
  C10. For every path of a click on the list container, both handlers keep \<open>page\<close>,
  \<open>matches\<close> and the previews of the list container; the state they return is the given
  state, or the given state with the detail overlay opened and filled from one record of
  the catalog.
\<close>

theorem C10_click_frame:
  "page (listItemsClick_scripts books A fy path s) = page s \<and>
   matches (listItemsClick_scripts books A fy path s) = matches s \<and>
   list_items (doc (listItemsClick_scripts books A fy path s)) = list_items (doc s) \<and>
   (listItemsClick_scripts books A fy path s = s \<or>
    (\<exists>b\<in>set books. listItemsClick_scripts books A fy path s =
       s\<lparr>doc := (doc s)\<lparr>list_active := detail_of A fy b\<rparr>\<rparr>)) \<and>
   page (listItemsClick_part000 books A fy path s) = page s \<and>
   matches (listItemsClick_part000 books A fy path s) = matches s \<and>
   list_items (doc (listItemsClick_part000 books A fy path s)) = list_items (doc s) \<and>
   (listItemsClick_part000 books A fy path s = s \<or>
    (\<exists>b\<in>set books. listItemsClick_part000 books A fy path s =
       s\<lparr>doc := (doc s)\<lparr>list_active := detail_of A fy b\<rparr>\<rparr>))"
proof -
  have scripts: "listItemsClick_scripts books A fy path s = s \<or>
    (\<exists>b\<in>set books. listItemsClick_scripts books A fy path s =
       s\<lparr>doc := (doc s)\<lparr>list_active := detail_of A fy b\<rparr>\<rparr>)"
  proof (cases "pathLoop books None path")
    case None
    then show ?thesis by (simp add: listItemsClick_scripts_def)
  next
    case (Some b)
    then have "b \<in> set books" by (rule pathLoop_in_catalog)
    moreover from Some have "listItemsClick_scripts books A fy path s =
       s\<lparr>doc := (doc s)\<lparr>list_active := detail_of A fy b\<rparr>\<rparr>"
      by (simp add: listItemsClick_scripts_def detail_of_def)
    ultimately show ?thesis by blast
  qed
  have part000: "listItemsClick_part000 books A fy path s = s \<or>
    (\<exists>b\<in>set books. listItemsClick_part000 books A fy path s =
       s\<lparr>doc := (doc s)\<lparr>list_active := detail_of A fy b\<rparr>\<rparr>)"
    by (auto simp: listItemsClick_part000_def displayBookDetails_def detail_of_def Let_def
        split: option.splits dest: find_in_catalog)
  show ?thesis
    using scripts part000
    by (simp add: listItemsClick_scripts_frame listItemsClick_part000_frame)
qed

theorem C10_click_frame_witness:
  "page (listItemsClick_scripts three_books some_authors some_year [preview_node ''b3'']
      \<lparr>page = 2, matches = [book1], doc = empty_page\<rparr>) = 2 \<and>
   matches (listItemsClick_scripts three_books some_authors some_year [preview_node ''b3'']
      \<lparr>page = 2, matches = [book1], doc = empty_page\<rparr>) = [book1] \<and>
   list_items (doc (listItemsClick_scripts three_books some_authors some_year
      [preview_node ''b3''] \<lparr>page = 2, matches = [book1], doc = empty_page\<rparr>)) = [] \<and>
   book3 \<in> set three_books \<and>
   listItemsClick_part000 three_books some_authors some_year [preview_node ''b3'']
      \<lparr>page = 2, matches = [book1], doc = empty_page\<rparr> =
     \<lparr>page = 2, matches = [book1],
      doc = empty_page\<lparr>list_active := detail_of some_authors some_year book3\<rparr>\<rparr>"
proof -
  have e: "listItemsClick_part000 three_books some_authors some_year [preview_node ''b3'']
      \<lparr>page = 2, matches = [book1], doc = empty_page\<rparr> =
     \<lparr>page = 2, matches = [book1],
      doc = empty_page\<lparr>list_active := detail_of some_authors some_year book3\<rparr>\<rparr>"
    by code_simp
  have m: "book3 \<in> set three_books"
    by (simp add: three_books_def)
  show ?thesis
    using e m
      C10_click_frame [of three_books some_authors some_year "[preview_node ''b3'']"
        "\<lparr>page = 2, matches = [book1], doc = empty_page\<rparr>"]
    by (simp add: empty_page_def)
qed

section \<open>Startup and the dropdowns\<close>

lemma startup_throws:
  "startup books A G n dark d0 = (Some TypeError, init_state books A n d0)"
  by (simp add: startup_def tagged_template_def init_state_def)

lemma populateDropdown_options:
  "populateDropdown [] opts label =
     \<lparr>option_value = ''any'', option_innerText = label\<rparr> #
     map (\<lambda>(i, name). \<lparr>option_value = i, option_innerText = name\<rparr>) opts"
  "map option_value (populateDropdown [] opts label) = ''any'' # map fst opts"
  "map option_innerText (populateDropdown [] opts label) = label # map snd opts"
  by (simp_all add: populateDropdown_def case_prod_unfold comp_def)

text \<open>
  C8. \<^verbatim>\<open>populateDropdown\<close> itself appends the default option \<open>any\<close> with the given label and
  then one option per entry, in order (\<open>populateDropdown_options\<close>). The startup code never
  gets to call it: the missing comma at line 64 makes the second argument a call of the
  \<^verbatim>\<open>genres\<close> object, which throws, for every catalog (\<open>startup_throws\<close>). With the three
  books, the module stops with a TypeError right after the first paint and both dropdowns
  are as empty as the page delivered them.
\<close>

theorem C8_startup_throws:
  "startup three_books some_authors some_genres 1 False empty_page =
     (Some TypeError, init_state three_books some_authors 1 empty_page) \<and>
   search_genres (doc (snd (startup three_books some_authors some_genres 1 False empty_page))) = [] \<and>
   search_authors (doc (snd (startup three_books some_authors some_genres 1 False empty_page))) = [] \<and>
   populateDropdown [] some_genres ''All genres'' =
     [\<lparr>option_value = ''any'', option_innerText = ''All genres''\<rparr>,
      \<lparr>option_value = ''g1'', option_innerText = ''Science fiction''\<rparr>,
      \<lparr>option_value = ''g2'', option_innerText = ''Novel''\<rparr>,
      \<lparr>option_value = ''g3'', option_innerText = ''Modernism''\<rparr>]"
  by code_simp

section \<open>The three ways a preview is built\<close>

lemma squeeze_append_mark:
  "\<not> isHTMLSpace c \<Longrightarrow> squeeze seen (xs @ c # ys) = squeeze seen xs @ c # squeeze False ys"
  by (induction xs arbitrary: seen) simp_all

lemma innerHTML_collapse:
  "collapse_space (innerHTML (createBookPreviewElement A b)) =
   collapse_space (innerHTML (inlinePreview_scripts A b))"
  unfolding createBookPreviewElement_def inlinePreview_scripts_def collapse_space_def
  by (simp add: squeeze_append_mark isHTMLSpace_def)

lemma same_preview_builders:
  "same_preview (createBookPreviewElement A b) (inlinePreview_scripts A b)"
  unfolding same_preview_def
  by (simp add: innerHTML_collapse) (simp add: createBookPreviewElement_def inlinePreview_scripts_def)

lemma same_preview_refl: "same_preview e e"
  by (simp add: same_preview_def)

lemma same_preview_maps:
  "list_all2 same_preview (map (createBookPreviewElement A) bs) (map (inlinePreview_scripts A) bs)"
  by (simp add: list_all2_map1 list_all2_map2 list_all2_same same_preview_builders)

lemma same_preview_lists: "list_all2 same_preview es es"
  by (simp add: list_all2_same same_preview_refl)

lemma sublist_places:
  "sublist x (p @ x @ q)"
  "sublist y (p @ x @ q @ y @ r)"
  "sublist z (p @ x @ q @ y @ r @ z @ t)"
proof -
  show "sublist x (p @ x @ q)" by simp
  have "p @ x @ q @ y @ r = (p @ x @ q) @ y @ r" by simp
  then show "sublist y (p @ x @ q @ y @ r)" by (simp only: sublist_appendI)
  have "p @ x @ q @ y @ r @ z @ t = (p @ x @ q @ y @ r) @ z @ t" by simp
  then show "sublist z (p @ x @ q @ y @ r @ z @ t)" by (simp only: sublist_appendI)
qed

text \<open>Both markups contain the image address, the title and the author's name.\<close>

lemma innerHTML_shows:
  "sublist (image' b) (innerHTML (createBookPreviewElement A b))"
  "sublist (title b) (innerHTML (createBookPreviewElement A b))"
  "sublist (author_name A (author b)) (innerHTML (createBookPreviewElement A b))"
  "sublist (image' b) (innerHTML (inlinePreview_scripts A b))"
  "sublist (title b) (innerHTML (inlinePreview_scripts A b))"
  "sublist (author_name A (author b)) (innerHTML (inlinePreview_scripts A b))"
  unfolding createBookPreviewElement_def inlinePreview_scripts_def element.select_convs
  by (rule sublist_places)+

lemma searchSubmit_scripts_items:
  "searchSubmit_scripts books A n fd s = Inr s' \<Longrightarrow>
   list_items (doc s') = map (inlinePreview_scripts A) (slice (matches s') 0 n)"
  by (auto simp: searchSubmit_scripts_def Let_def split: sum.splits)

lemma renderPage_first:
  "list_items (renderPage A n bs (Suc 0) d) = map (createBookPreviewElement A) (slice bs 0 n)"
  by (simp add: renderPage_def)

lemma renderPage_later:
  "0 < p \<Longrightarrow> list_items (renderPage A n bs (p + 1) d) =
     list_items d @ map (createBookPreviewElement A) (slice bs (p * n) ((p + 1) * n))"
  by (simp add: renderPage_def)

text \<open>In \<^verbatim>\<open>scripts.js\<close> the template of \<^verbatim>\<open>createBookPreviewElement\<close> and the inline template of
  the two handlers are indented and broken into lines differently, which is why previews
  are compared with \<open>same_preview\<close> and not character for character.\<close>

lemma markup_differs_in_white_space:
  "innerHTML (createBookPreviewElement some_authors book1) \<noteq>
   innerHTML (inlinePreview_scripts some_authors book1)"
  by code_simp

text \<open>
  C9. For the same record, \<^verbatim>\<open>createBookPreviewElement\<close> (the first paint of both files and
  every path of the second file) and the inline code of the submit and show-more handlers
  of \<^verbatim>\<open>scripts.js\<close> build the same preview: a button with the class \<^verbatim>\<open>preview\<close>, the record's
  id in \<^verbatim>\<open>data-preview\<close>, and markup that shows the image, the title and the author's name
  and is the same once white space is collapsed as HTML does. So the single \<open>renderPage\<close>
  of the specification changes nothing: with \<open>page\<close> at least 1, the first paint appends
  what \<open>renderPage\<close> puts on page 1, the repaint of a submission and the append of show more
  in \<^verbatim>\<open>scripts.js\<close> leave in the list container the same previews, one by one, as
  \<open>renderPage\<close> does, and the two paths of the second file leave exactly its elements.
\<close>

theorem C9_render_paths_equivalent:
  assumes "0 < page s"
  shows
   "same_preview (createBookPreviewElement A b) (inlinePreview_scripts A b) \<and>
    tagName (createBookPreviewElement A b) = ''button'' \<and>
    className (createBookPreviewElement A b) = ''preview'' \<and>
    data_preview (createBookPreviewElement A b) = id' b \<and>
    tagName (inlinePreview_scripts A b) = ''button'' \<and>
    className (inlinePreview_scripts A b) = ''preview'' \<and>
    data_preview (inlinePreview_scripts A b) = id' b \<and>
    sublist (image' b) (innerHTML (createBookPreviewElement A b)) \<and>
    sublist (title b) (innerHTML (createBookPreviewElement A b)) \<and>
    sublist (author_name A (author b)) (innerHTML (createBookPreviewElement A b)) \<and>
    sublist (image' b) (innerHTML (inlinePreview_scripts A b)) \<and>
    sublist (title b) (innerHTML (inlinePreview_scripts A b)) \<and>
    sublist (author_name A (author b)) (innerHTML (inlinePreview_scripts A b)) \<and>
    list_items (doc (init_state books A n d0)) =
      list_items d0 @ list_items (renderPage A n books 1 d0) \<and>
    (case searchSubmit_scripts books A n fd s of
       Inl e \<Rightarrow> True
     | Inr s' \<Rightarrow>
         list_all2 same_preview (list_items (renderPage A n (matches s') (page s') (doc s)))
           (list_items (doc s'))) \<and>
    list_all2 same_preview (list_items (renderPage A n (matches s) (page s + 1) (doc s)))
      (list_items (doc (listButtonClick_scripts A n s))) \<and>
    list_items (doc (updateBookList A n bs s)) = list_items (renderPage A n bs 1 (doc s)) \<and>
    list_items (doc (listButtonClick_part000 A n s)) =
      list_items (renderPage A n (matches s) (page s + 1) (doc s))"
proof -
  have submit: "case searchSubmit_scripts books A n fd s of
       Inl e \<Rightarrow> True
     | Inr s' \<Rightarrow>
         list_all2 same_preview (list_items (renderPage A n (matches s') (page s') (doc s)))
           (list_items (doc s'))"
  proof (cases "searchSubmit_scripts books A n fd s")
    case (Inl e)
    then show ?thesis by simp
  next
    case (Inr s')
    then have "page s' = 1"
      by (auto simp: searchSubmit_scripts_def Let_def split: sum.splits)
    with Inr show ?thesis
      by (simp add: searchSubmit_scripts_items renderPage_first same_preview_maps)
  qed
  have click: "list_all2 same_preview (list_items (renderPage A n (matches s) (page s + 1) (doc s)))
      (list_items (doc (listButtonClick_scripts A n s)))"
    using assms
    by (simp only: renderPage_later listButtonClick_scripts_effect)
      (simp add: list_all2_appendI same_preview_lists same_preview_maps)
  have fields:
    "tagName (createBookPreviewElement A b) = ''button''"
    "className (createBookPreviewElement A b) = ''preview''"
    "data_preview (createBookPreviewElement A b) = id' b"
    "tagName (inlinePreview_scripts A b) = ''button''"
    "className (inlinePreview_scripts A b) = ''preview''"
    "data_preview (inlinePreview_scripts A b) = id' b"
    by (simp_all add: createBookPreviewElement_def inlinePreview_scripts_def)
  have first: "list_items (doc (init_state books A n d0)) =
      list_items d0 @ list_items (renderPage A n books 1 d0)"
    by (simp add: init_state_def renderInitialBooks_def renderPage_first)
  have second: "list_items (doc (updateBookList A n bs s)) = list_items (renderPage A n bs 1 (doc s))"
    by (simp add: updateBookList_def updateShowMoreButton_effect renderPage_first Let_def)
  have append: "list_items (doc (listButtonClick_part000 A n s)) =
      list_items (renderPage A n (matches s) (page s + 1) (doc s))"
    using assms by (simp only: renderPage_later listButtonClick_part000_effect) simp
  show ?thesis
    using submit click fields first second append same_preview_builders [of A b]
      innerHTML_shows [where b = b and A = A]
    by (intro conjI) assumption+
qed

theorem C9_render_paths_equivalent_witness:
  "0 < page (init_state three_books some_authors 1 empty_page) \<and>
   list_all2 same_preview
     (list_items (renderPage some_authors 1 three_books 2
        (doc (init_state three_books some_authors 1 empty_page))))
     (list_items (doc (listButtonClick_scripts some_authors 1
        (init_state three_books some_authors 1 empty_page)))) \<and>
   map data_preview (list_items (doc (listButtonClick_scripts some_authors 1
        (init_state three_books some_authors 1 empty_page)))) = [''b1'', ''b2'']"
proof -
  have h: "0 < page (init_state three_books some_authors 1 empty_page)"
    by (simp add: init_state_def)
  have p: "page (init_state three_books some_authors 1 empty_page) + 1 = 2"
    by (simp add: init_state_def)
  have m: "matches (init_state three_books some_authors 1 empty_page) = three_books"
    by (simp add: init_state_def)
  have i: "map data_preview (list_items (doc (listButtonClick_scripts some_authors 1
        (init_state three_books some_authors 1 empty_page)))) = [''b1'', ''b2'']"
    by code_simp
  show ?thesis
    using h i
      C9_render_paths_equivalent [OF h, of some_authors book1 three_books 1 empty_page
        "criteria ''any'' ''any'' []" three_books]
    by (simp only: p m)
qed

end
